theory Spec2Isabelle
  imports Main
begin

section \<open>The storage accessor of src/lib/storage/factory.ts\<close>

text \<open>
  \<^verbatim>\<open>createStorage(config)\<close> returns an object whose methods close over \<open>config\<close> and talk
  to the host's \<^verbatim>\<open>chrome.storage.local\<close>. The methods are embedded as functions that take
  the configuration, what the host does at this call (its reply) and the state of the
  host before the call, and give back what the caller receives together with the state
  after the call.
\<close>

subsection \<open>Data\<close>

text \<open>\<^verbatim>\<open>StorageConfig<T>\<close>: the values of \<open>T\<close> other than \<^verbatim>\<open>undefined\<close> are \<open>'v\<close>.\<close>

record 'v StorageConfig =
  key :: string
  defaultValue :: 'v

text \<open>
  What can be thrown: an error of the store (thrown by a call, or left in
  \<^verbatim>\<open>chrome.runtime.lastError\<close>), carrying the host's message, and the TypeError of
  JavaScript for a property read on \<^verbatim>\<open>undefined\<close>.
\<close>

datatype error = StoreUnavailable string | TypeError

text \<open>How a block of synchronous code ends: with a value, or by throwing.\<close>

datatype 'a completion = Returned 'a | Raised error

text \<open>
  A promise is recorded as the settle requests made on it, in the order they were made:
  \<^verbatim>\<open>resolve(v)\<close>, or a rejection. The first request decides the state; the
  runtime ignores every later one; with no request the promise stays pending.
\<close>

datatype 'a settle = Resolve 'a | Reject error

type_synonym 'a promise = "'a settle list"

datatype 'a promise_state = Pending | Fulfilled 'a | Rejected error

fun state_of :: "'a promise \<Rightarrow> 'a promise_state" where
  "state_of [] = Pending"
| "state_of (Resolve v # _) = Fulfilled v"
| "state_of (Reject e # _) = Rejected e"

text \<open>
  The objects the host hands to a callback (the result of \<^verbatim>\<open>get\<close>, the changes of an
  event) are plain objects: the map of their own properties, with \<^verbatim>\<open>Object.prototype\<close>
  behind it. A property read \<^verbatim>\<open>obj[k]\<close> and the test \<^verbatim>\<open>k in obj\<close> look at the own
  properties first and at the prototype after, so they also find the members every plain
  object inherits. These are their names.
\<close>

definition Object_prototype :: "string list" where
  "Object_prototype =
     [''constructor'', ''hasOwnProperty'', ''isPrototypeOf'', ''propertyIsEnumerable'',
      ''toLocaleString'', ''toString'', ''valueOf'', ''__proto__'',
      ''__defineGetter__'', ''__defineSetter__'', ''__lookupGetter__'', ''__lookupSetter__'']"

text \<open>
  What a property read gives: \<^verbatim>\<open>undefined\<close>, a value of \<open>T\<close> held by an own property,
  or the inherited member of that name (a function, or the prototype itself).
\<close>

datatype 'v js_value = Undefined | Value 'v | Inherited string

text \<open>\<^verbatim>\<open>obj[k]\<close>\<close>

definition property_read :: "(string \<rightharpoonup> 'v) \<Rightarrow> string \<Rightarrow> 'v js_value" where
  "property_read obj k =
     (case obj k of
        Some v \<Rightarrow> Value v
      | None \<Rightarrow> if k \<in> set Object_prototype then Inherited k else Undefined)"

text \<open>\<^verbatim>\<open>k in obj\<close>\<close>

definition has_property :: "(string \<rightharpoonup> 'a) \<Rightarrow> string \<Rightarrow> bool" where
  "has_property obj k =
     (case obj k of Some v \<Rightarrow> True | None \<Rightarrow> k \<in> set Object_prototype)"

text \<open>\<^verbatim>\<open>chrome.storage.StorageChange\<close>: both fields may be absent.\<close>

record 'v StorageChange =
  newValue :: "'v option"
  oldValue :: "'v option"

text \<open>
  The closure \<^verbatim>\<open>listener\<close> of \<^verbatim>\<open>watch\<close> (lines 46-53): it captures \<^verbatim>\<open>config.key\<close>
  and \<^verbatim>\<open>callback\<close>. JavaScript compares listeners by identity, so each closure carries
  an identity \<open>lid\<close>, its number among the closures created so far; callbacks are named
  by numbers.
\<close>

record listener =
  lid :: nat
  lkey :: string
  lcallback :: nat

text \<open>One invocation of a callback: the listener that made it, the callback, the argument.\<close>

type_synonym 'v call = "nat \<times> nat \<times> 'v option"

text \<open>
  The host, as far as the accessor can observe it: the contents of
  \<^verbatim>\<open>chrome.storage.local\<close>, the listeners of its \<^verbatim>\<open>onChanged\<close> event, the lines
  written by \<^verbatim>\<open>console.error\<close> (the text before the error, and the error), the
  callback invocations made so far, the exceptions that left a callback the host
  invoked (nobody catches those), and the number of listener closures created so far,
  which is the identity of the next one: an identity is never given twice.
\<close>

record 'v world =
  store :: "string \<rightharpoonup> 'v"
  listeners :: "listener list"
  console :: "(string \<times> error) list"
  calls :: "'v call list"
  uncaught :: "error list"
  next_lid :: nat

definition empty_world :: "'v world" where
  "empty_world =
     \<lparr>store = Map.empty, listeners = [], console = [], calls = [], uncaught = [],
      next_lid = 0\<rparr>"

definition console_error :: "string \<Rightarrow> error \<Rightarrow> 'v world \<Rightarrow> 'v world" where
  "console_error msg e w = w\<lparr>console := console w @ [(msg, e)]\<rparr>"

subsection \<open>The host's store\<close>

text \<open>
  The external collaborator of section 6 of the specification. A call of
  \<^verbatim>\<open>get\<close>, \<^verbatim>\<open>set\<close> or \<^verbatim>\<open>remove\<close> either throws at once, or returns and
  later invokes the callback, with \<^verbatim>\<open>chrome.runtime.lastError\<close> unset after a
  success and set after a failure. The host always answers, and a failed write or
  removal leaves the contents as they were.
\<close>

datatype reply = Ok | Throws string | Fails string

text \<open>
  For \<^verbatim>\<open>get\<close>, a failure reported through \<^verbatim>\<open>lastError\<close> comes with the argument
  the host passes to the callback: \<open>None\<close> is \<^verbatim>\<open>undefined\<close>.
\<close>

datatype 'v get_reply =
  Get_ok | Get_throws string | Get_fails string "(string \<rightharpoonup> 'v) option"

text \<open>
  What a call leaves behind when it returns: it threw, or the callback is scheduled
  with the value \<^verbatim>\<open>lastError\<close> will have and the argument it will get.
\<close>

datatype 'r called = Thrown error | Scheduled "error option" 'r

definition storage_local_get ::
  "string list \<Rightarrow> 'v get_reply \<Rightarrow> 'v world \<Rightarrow> (string \<rightharpoonup> 'v) option called \<times> 'v world" where
  "storage_local_get keys rp w =
     (case rp of
        Get_ok \<Rightarrow> (Scheduled None (Some (store w |` set keys)), w)
      | Get_throws m \<Rightarrow> (Thrown (StoreUnavailable m), w)
      | Get_fails m res \<Rightarrow> (Scheduled (Some (StoreUnavailable m)) res, w))"

definition storage_local_set ::
  "string \<Rightarrow> 'v \<Rightarrow> reply \<Rightarrow> 'v world \<Rightarrow> unit called \<times> 'v world" where
  "storage_local_set k v rp w =
     (case rp of
        Ok \<Rightarrow> (Scheduled None (), w\<lparr>store := (store w)(k \<mapsto> v)\<rparr>)
      | Throws m \<Rightarrow> (Thrown (StoreUnavailable m), w)
      | Fails m \<Rightarrow> (Scheduled (Some (StoreUnavailable m)) (), w))"

definition storage_local_remove ::
  "string \<Rightarrow> reply \<Rightarrow> 'v world \<Rightarrow> unit called \<times> 'v world" where
  "storage_local_remove k rp w =
     (case rp of
        Ok \<Rightarrow> (Scheduled None (), w\<lparr>store := (store w)(k := None)\<rparr>)
      | Throws m \<Rightarrow> (Thrown (StoreUnavailable m), w)
      | Fails m \<Rightarrow> (Scheduled (Some (StoreUnavailable m)) (), w))"

subsection \<open>Promises, try/catch and async functions\<close>

text \<open>
  A callback handed to the host: given \<^verbatim>\<open>lastError\<close> and its argument it makes settle
  requests, may throw, and may write to the console.
\<close>

type_synonym ('r, 'a, 'v) callback =
  "error option \<Rightarrow> 'r \<Rightarrow> 'v world \<Rightarrow> 'a settle list \<times> error option \<times> 'v world"

text \<open>
  \<^verbatim>\<open>new Promise((resolve) => { api(..., callback) })\<close>. The constructor runs the
  executor at once. An exception of the executor (here: of the call itself) rejects the
  promise; the constructor returns normally either way. The callback runs later, from
  the host: its settle requests reach the promise, an exception it throws does not (it was
  not thrown inside the executor) and ends as an uncaught exception of the host.
\<close>

definition new_Promise ::
  "'r called \<times> 'v world \<Rightarrow> ('r, 'a, 'v) callback \<Rightarrow> 'a promise completion \<times> 'v world" where
  "new_Promise cw cb =
     (case cw of
        (Thrown e, w) \<Rightarrow> (Returned [Reject e], w)
      | (Scheduled lastError arg, w) \<Rightarrow>
          (case cb lastError arg w of
             (ss, None, w') \<Rightarrow> (Returned ss, w')
           | (ss, Some e, w') \<Rightarrow> (Returned ss, w'\<lparr>uncaught := uncaught w' @ [e]\<rparr>)))"

text \<open>\<^verbatim>\<open>try { body } catch (error) { handler }\<close>\<close>

definition try_catch ::
  "'a completion \<times> 'w \<Rightarrow> (error \<Rightarrow> 'w \<Rightarrow> 'a completion \<times> 'w) \<Rightarrow> 'a completion \<times> 'w" where
  "try_catch cw handler =
     (case cw of (Returned x, w) \<Rightarrow> (Returned x, w) | (Raised e, w) \<Rightarrow> handler e w)"

text \<open>
  The promise of an \<^verbatim>\<open>async\<close> function whose body returns the promise \<open>p\<close> without
  awaiting it follows \<open>p\<close>: it is settled once, as \<open>p\<close> is, and stays pending while
  \<open>p\<close> does.
\<close>

definition adopt :: "'a promise \<Rightarrow> 'a promise" where
  "adopt p =
     (case state_of p of
        Pending \<Rightarrow> [] | Fulfilled v \<Rightarrow> [Resolve v] | Rejected e \<Rightarrow> [Reject e])"

text \<open>An \<^verbatim>\<open>async\<close> function: an exception of its body rejects its promise.\<close>

definition async ::
  "'a promise completion \<times> 'w \<Rightarrow> 'a promise \<times> 'w" where
  "async cw = (case cw of (Returned p, w) \<Rightarrow> (adopt p, w) | (Raised e, w) \<Rightarrow> ([Reject e], w))"

subsection \<open>get, set, remove (lines 11-42 and 89-105)\<close>

text \<open>
  Line 16: \<^verbatim>\<open>resolve(result[config.key] as T)\<close>. The callback does not look at
  \<^verbatim>\<open>lastError\<close>; reading a property of an undefined \<^verbatim>\<open>result\<close> throws; the
  cast \<^verbatim>\<open>as T\<close> does nothing when the program runs.
\<close>

definition get_callback ::
  "'v StorageConfig \<Rightarrow> ((string \<rightharpoonup> 'v) option, 'v js_value, 'v) callback" where
  "get_callback config lastError result w =
     (case result of
        None \<Rightarrow> ([], Some TypeError, w)
      | Some r \<Rightarrow> ([Resolve (property_read r (key config))], None, w))"

definition get ::
  "'v StorageConfig \<Rightarrow> 'v get_reply \<Rightarrow> 'v world \<Rightarrow> 'v js_value promise \<times> 'v world" where
  "get config rp w =
     async (try_catch
       (new_Promise (storage_local_get [key config] rp w) (get_callback config))
       (\<lambda>e w'. (Raised e,
          console_error (''Storage get error for '' @ key config @ '':'') e w')))"

text \<open>Lines 30-36: log and throw when \<^verbatim>\<open>lastError\<close> is set, else \<^verbatim>\<open>resolve()\<close>.\<close>

definition set_callback :: "'v StorageConfig \<Rightarrow> (unit, unit, 'v) callback" where
  "set_callback config lastError u w =
     (case lastError of
        Some e \<Rightarrow>
          ([], Some e, console_error (''Storage set error for '' @ key config @ '':'') e w)
      | None \<Rightarrow> ([Resolve ()], None, w))"

definition set_op ::
  "'v StorageConfig \<Rightarrow> 'v \<Rightarrow> reply \<Rightarrow> 'v world \<Rightarrow> unit promise \<times> 'v world" where
  "set_op config v rp w =
     async (try_catch
       (new_Promise (storage_local_set (key config) v rp w) (set_callback config))
       (\<lambda>e w'. (Raised e,
          console_error (''Storage set error for '' @ key config @ '':'') e w')))"

definition remove_callback :: "'v StorageConfig \<Rightarrow> (unit, unit, 'v) callback" where
  "remove_callback config lastError u w =
     (case lastError of
        Some e \<Rightarrow>
          ([], Some e, console_error (''Storage remove error for '' @ key config @ '':'') e w)
      | None \<Rightarrow> ([Resolve ()], None, w))"

definition remove_op ::
  "'v StorageConfig \<Rightarrow> reply \<Rightarrow> 'v world \<Rightarrow> unit promise \<times> 'v world" where
  "remove_op config rp w =
     async (try_catch
       (new_Promise (storage_local_remove (key config) rp w) (remove_callback config))
       (\<lambda>e w'. (Raised e,
          console_error (''Storage remove error for '' @ key config @ '':'') e w')))"

subsection \<open>getWithDefault, reset, getConfig (lines 73-86 and 108-110)\<close>

text \<open>
  \<^verbatim>\<open>await this.get()\<close> inside try/catch: a fulfilled promise gives its value, a rejected
  one throws into the handler, and a promise that stays pending leaves the function
  suspended for good. Line 76 replaces \<^verbatim>\<open>undefined\<close> only.
\<close>

definition getWithDefault ::
  "'v StorageConfig \<Rightarrow> 'v get_reply \<Rightarrow> 'v world \<Rightarrow> 'v js_value promise \<times> 'v world" where
  "getWithDefault config rp w =
     (case get config rp w of
        (p, w') \<Rightarrow>
          (case state_of p of
             Pending \<Rightarrow> ([], w')
           | Fulfilled val \<Rightarrow>
               ([Resolve (if val = Undefined then Value (defaultValue config) else val)], w')
           | Rejected e \<Rightarrow>
               ([Resolve (Value (defaultValue config))],
                console_error (''Storage getWithDefault error for '' @ key config @ '':'') e w')))"

definition reset ::
  "'v StorageConfig \<Rightarrow> reply \<Rightarrow> 'v world \<Rightarrow> unit promise \<times> 'v world" where
  "reset config rp w =
     (case set_op config (defaultValue config) rp w of (p, w') \<Rightarrow> async (Returned p, w'))"

definition getConfig :: "'v StorageConfig \<Rightarrow> 'v StorageConfig" where
  "getConfig config = config"

subsection \<open>watch (lines 45-70)\<close>

text \<open>
  \<^verbatim>\<open>onChanged.addListener\<close> and \<^verbatim>\<open>onChanged.removeListener\<close> take no callback:
  they do their work and return, or throw and change nothing.
\<close>

datatype sync_reply = Done | Raises string

definition onChanged_addListener ::
  "listener \<Rightarrow> sync_reply \<Rightarrow> 'v world \<Rightarrow> unit completion \<times> 'v world" where
  "onChanged_addListener l rp w =
     (case rp of
        Done \<Rightarrow> (Returned (), w\<lparr>listeners := listeners w @ [l]\<rparr>)
      | Raises m \<Rightarrow> (Raised (StoreUnavailable m), w))"

text \<open>Removal is by identity; removing a listener that is not registered does nothing.\<close>

definition onChanged_removeListener ::
  "nat \<Rightarrow> sync_reply \<Rightarrow> 'v world \<Rightarrow> unit completion \<times> 'v world" where
  "onChanged_removeListener i rp w =
     (case rp of
        Done \<Rightarrow> (Returned (), w\<lparr>listeners := filter (\<lambda>l. lid l \<noteq> i) (listeners w)\<rparr>)
      | Raises m \<Rightarrow> (Raised (StoreUnavailable m), w))"

text \<open>
  The two functions \<^verbatim>\<open>watch\<close> can return: the closure of lines 58-65, which captures
  \<^verbatim>\<open>listener\<close> and \<^verbatim>\<open>config\<close>, and \<^verbatim>\<open>() => {}\<close> of line 68. The closure
  \<^verbatim>\<open>listener\<close> is created on line 46, before \<^verbatim>\<open>addListener\<close> is tried.
\<close>

datatype unregister = Remove_listener nat string | No_op

definition watch ::
  "'v StorageConfig \<Rightarrow> nat \<Rightarrow> sync_reply \<Rightarrow> 'v world \<Rightarrow> unregister completion \<times> 'v world" where
  "watch config callback rp w =
     (let l = \<lparr>lid = next_lid w, lkey = key config, lcallback = callback\<rparr>;
          w0 = w\<lparr>next_lid := Suc (next_lid w)\<rparr> in
      try_catch
        (case onChanged_addListener l rp w0 of
           (Returned u, w') \<Rightarrow> (Returned (Remove_listener (lid l) (key config)), w')
         | (Raised e, w') \<Rightarrow> (Raised e, w'))
        (\<lambda>e w'. (Returned No_op,
           console_error (''Storage watch error for '' @ key config @ '':'') e w')))"

text \<open>Calling the function \<^verbatim>\<open>watch\<close> returned.\<close>

definition call_unregister ::
  "unregister \<Rightarrow> sync_reply \<Rightarrow> 'v world \<Rightarrow> unit completion \<times> 'v world" where
  "call_unregister u rp w =
     (case u of
        Remove_listener i k \<Rightarrow>
          try_catch (onChanged_removeListener i rp w)
            (\<lambda>e w'. (Returned (),
               console_error (''Storage unwatch error for '' @ k @ '':'') e w'))
      | No_op \<Rightarrow> (Returned (), w))"

text \<open>
  Lines 50-52, the body of \<^verbatim>\<open>listener\<close>: the invocations one listener makes for one
  change event. \<^verbatim>\<open>changes[config.key].newValue\<close> is the \<^verbatim>\<open>newValue\<close> of the change
  the event reports for the key; where the key names an inherited member only, it is the
  property \<^verbatim>\<open>newValue\<close> of that member, which has none: \<^verbatim>\<open>undefined\<close>.
\<close>

definition listener_body :: "listener \<Rightarrow> (string \<rightharpoonup> 'v StorageChange) \<Rightarrow> 'v call list" where
  "listener_body l changes =
     (if has_property changes (lkey l)
      then [(lid l, lcallback l,
             case changes (lkey l) of Some c \<Rightarrow> newValue c | None \<Rightarrow> None)]
      else [])"

text \<open>
  The host delivers a change event to every registered listener, in the order of their
  registration.
\<close>

definition event_calls :: "listener list \<Rightarrow> (string \<rightharpoonup> 'v StorageChange) \<Rightarrow> 'v call list" where
  "event_calls ls changes = concat (map (\<lambda>l. listener_body l changes) ls)"

definition onChanged_fire :: "(string \<rightharpoonup> 'v StorageChange) \<Rightarrow> 'v world \<Rightarrow> 'v world" where
  "onChanged_fire changes w = w\<lparr>calls := calls w @ event_calls (listeners w) changes\<rparr>"

fun fire_all :: "(string \<rightharpoonup> 'v StorageChange) list \<Rightarrow> 'v world \<Rightarrow> 'v world" where
  "fire_all [] w = w"
| "fire_all (changes # evs) w = fire_all evs (onChanged_fire changes w)"

text \<open>The invocations made by the listener \<open>i\<close> since the log had \<open>n\<close> entries.\<close>

definition calls_since :: "nat \<Rightarrow> nat \<Rightarrow> 'v world \<Rightarrow> 'v call list" where
  "calls_since n i w = filter (\<lambda>c. fst c = i) (drop n (calls w))"

subsection \<open>Callers\<close>

text \<open>
  What can happen to the host between two calls: a change event, or a call of an
  operation of any accessor, of \<^verbatim>\<open>watch\<close> or of any function \<^verbatim>\<open>watch\<close> returned,
  each with the reply of the host.
\<close>

datatype 'v action =
  Change "string \<rightharpoonup> 'v StorageChange"
| Call_get "'v StorageConfig" "'v get_reply"
| Call_set "'v StorageConfig" 'v reply
| Call_remove "'v StorageConfig" reply
| Call_getWithDefault "'v StorageConfig" "'v get_reply"
| Call_reset "'v StorageConfig" reply
| Call_watch "'v StorageConfig" nat sync_reply
| Call_unregister unregister sync_reply

fun perform :: "'v action \<Rightarrow> 'v world \<Rightarrow> 'v world" where
  "perform (Change changes) w = onChanged_fire changes w"
| "perform (Call_get config rp) w = snd (get config rp w)"
| "perform (Call_set config v rp) w = snd (set_op config v rp w)"
| "perform (Call_remove config rp) w = snd (remove_op config rp w)"
| "perform (Call_getWithDefault config rp) w = snd (getWithDefault config rp w)"
| "perform (Call_reset config rp) w = snd (reset config rp w)"
| "perform (Call_watch config callback rp) w = snd (watch config callback rp w)"
| "perform (Call_unregister u rp) w = snd (call_unregister u rp w)"

fun run :: "'v action list \<Rightarrow> 'v world \<Rightarrow> 'v world" where
  "run [] w = w"
| "run (a # as) w = run as (perform a w)"

text \<open>
  Every registered listener is a closure that was created: its identity is below the
  number of closures created so far.
\<close>

definition wf_world :: "'v world \<Rightarrow> bool" where
  "wf_world w = list_all (\<lambda>l. lid l < next_lid w) (listeners w)"

subsection \<open>The scenario of section 8 of the specification\<close>

definition theme_config :: "string StorageConfig" where
  "theme_config = \<lparr>key = ''theme'', defaultValue = ''light''\<rparr>"

definition dark_event :: "string \<rightharpoonup> string StorageChange" where
  "dark_event = [''theme'' \<mapsto> \<lparr>newValue = Some ''dark'', oldValue = None\<rparr>]"

text \<open>The same accessor for a key that names a member of \<^verbatim>\<open>Object.prototype\<close>.\<close>

definition toString_config :: "string StorageConfig" where
  "toString_config = \<lparr>key = ''toString'', defaultValue = ''light''\<rparr>"

text \<open>A change event that reports another key only.\<close>

definition lang_event :: "string \<rightharpoonup> string StorageChange" where
  "lang_event = [''lang'' \<mapsto> \<lparr>newValue = Some ''fr'', oldValue = Some ''en''\<rparr>]"

section \<open>Properties\<close>

subsection \<open>Property reads\<close>

lemma property_read_own: "obj k = Some v \<Longrightarrow> property_read obj k = Value v"
  by (simp add: property_read_def)

lemma property_read_absent:
  "obj k = None \<Longrightarrow> k \<notin> set Object_prototype \<Longrightarrow> property_read obj k = Undefined"
  by (simp add: property_read_def)

lemma property_read_inherited:
  "obj k = None \<Longrightarrow> k \<in> set Object_prototype \<Longrightarrow> property_read obj k = Inherited k"
  by (simp add: property_read_def)

lemma theme_not_inherited: "''theme'' \<notin> set Object_prototype"
  by (simp add: Object_prototype_def)

lemma toString_inherited: "''toString'' \<in> set Object_prototype"
  by (simp add: Object_prototype_def)

subsection \<open>Each operation, reply by reply\<close>

lemmas op_defs = async_def try_catch_def new_Promise_def adopt_def console_error_def
  storage_local_get_def storage_local_set_def storage_local_remove_def
  get_callback_def set_callback_def remove_callback_def

lemma get_Get_ok:
  "get config Get_ok w = ([Resolve (property_read (store w |` {key config}) (key config))], w)"
  by (simp add: get_def op_defs)

lemma get_Get_ok_stored:
  "store w (key config) = Some v \<Longrightarrow> get config Get_ok w = ([Resolve (Value v)], w)"
  by (simp add: get_Get_ok property_read_def)

lemma get_Get_ok_unset:
  "store w (key config) = None \<Longrightarrow>
   get config Get_ok w =
     ([Resolve (if key config \<in> set Object_prototype then Inherited (key config)
                else Undefined)], w)"
  by (simp add: get_Get_ok property_read_def)

lemma get_Get_throws: "get config (Get_throws m) w = ([Reject (StoreUnavailable m)], w)"
  by (simp add: get_def op_defs)

lemma get_Get_fails_undefined:
  "get config (Get_fails m None) w = ([], w\<lparr>uncaught := uncaught w @ [TypeError]\<rparr>)"
  by (simp add: get_def op_defs)

lemma get_Get_fails_result:
  "get config (Get_fails m (Some r)) w = ([Resolve (property_read r (key config))], w)"
  by (simp add: get_def op_defs)

lemma set_op_Ok:
  "set_op config v Ok w = ([Resolve ()], w\<lparr>store := (store w)(key config \<mapsto> v)\<rparr>)"
  by (simp add: set_op_def op_defs)

lemma set_op_Throws: "set_op config v (Throws m) w = ([Reject (StoreUnavailable m)], w)"
  by (simp add: set_op_def op_defs)

lemma set_op_Fails:
  "set_op config v (Fails m) w =
     ([], w\<lparr>console := console w @
               [(''Storage set error for '' @ key config @ '':'', StoreUnavailable m)],
            uncaught := uncaught w @ [StoreUnavailable m]\<rparr>)"
  by (simp add: set_op_def op_defs)

lemma remove_op_Ok:
  "remove_op config Ok w = ([Resolve ()], w\<lparr>store := (store w)(key config := None)\<rparr>)"
  by (simp add: remove_op_def op_defs)

lemma remove_op_Throws: "remove_op config (Throws m) w = ([Reject (StoreUnavailable m)], w)"
  by (simp add: remove_op_def op_defs)

lemma remove_op_Fails:
  "remove_op config (Fails m) w =
     ([], w\<lparr>console := console w @
               [(''Storage remove error for '' @ key config @ '':'', StoreUnavailable m)],
            uncaught := uncaught w @ [StoreUnavailable m]\<rparr>)"
  by (simp add: remove_op_def op_defs)

text \<open>
  The handlers of lines 19-22, 38-41 and 101-104 never run: the constructor of a promise
  does not throw, and the promise is returned without being awaited.
\<close>

lemma new_Promise_returns: "\<exists>p w'. new_Promise cw cb = (Returned p, w')"
  by (auto simp add: new_Promise_def split: prod.splits called.splits option.splits)

lemma try_catch_new_Promise: "try_catch (new_Promise cw cb) handler = new_Promise cw cb"
  using new_Promise_returns [of cw cb] by (auto simp add: try_catch_def)

lemma get_never_logs: "console (snd (get config rp w)) = console w"
  by (cases rp) (auto simp add: get_def op_defs split: option.splits)

text \<open>No operation makes more than one settle request.\<close>

lemma get_settles_at_most_once: "length (fst (get config rp w)) \<le> 1"
  by (cases rp) (auto simp add: get_def op_defs split: option.splits)

lemma set_op_settles_at_most_once: "length (fst (set_op config v rp w)) \<le> 1"
  by (cases rp) (simp_all add: set_op_Ok set_op_Throws set_op_Fails)

lemma remove_op_settles_at_most_once: "length (fst (remove_op config rp w)) \<le> 1"
  by (cases rp) (simp_all add: remove_op_Ok remove_op_Throws remove_op_Fails)

lemma adopt_adopt: "adopt (adopt p) = adopt p"
  by (cases "state_of p") (simp_all add: adopt_def)

lemma reset_eq_set_op: "reset config rp w = set_op config (defaultValue config) rp w"
  by (cases rp)
     (simp_all add: reset_def set_op_Ok set_op_Throws set_op_Fails async_def adopt_def)

subsection \<open>getWithDefault and remove, for the keys that name no inherited member\<close>

lemma getWithDefault_unset:
  assumes "store w (key config) = None" and "key config \<notin> set Object_prototype"
  shows "getWithDefault config Get_ok w = ([Resolve (Value (defaultValue config))], w)"
  using assms by (simp add: getWithDefault_def get_Get_ok_unset)

lemma getWithDefault_get_rejected:
  assumes "state_of (fst (get config rp w)) = Rejected e"
  shows "getWithDefault config rp w =
    ([Resolve (Value (defaultValue config))],
     console_error (''Storage getWithDefault error for '' @ key config @ '':'') e
       (snd (get config rp w)))"
  using assms by (cases "get config rp w") (simp add: getWithDefault_def)

lemma getWithDefault_never_rejected:
  "state_of (fst (getWithDefault config rp w)) \<noteq> Rejected e"
  by (cases "get config rp w") (simp add: getWithDefault_def split: promise_state.splits)

lemma remove_then_get_absent:
  assumes "key config \<notin> set Object_prototype"
  shows "state_of (fst (get config Get_ok (snd (remove_op config Ok w)))) = Fulfilled Undefined"
  using assms by (simp add: remove_op_Ok get_Get_ok_unset)

subsection \<open>What the operations on the store leave alone\<close>

lemma get_frame:
  "listeners (snd (get config rp w)) = listeners w \<and>
   calls (snd (get config rp w)) = calls w \<and>
   next_lid (snd (get config rp w)) = next_lid w"
  by (cases rp) (auto simp add: get_def op_defs split: option.splits)

lemma set_op_frame:
  "listeners (snd (set_op config v rp w)) = listeners w \<and>
   calls (snd (set_op config v rp w)) = calls w \<and>
   next_lid (snd (set_op config v rp w)) = next_lid w"
  by (cases rp) (simp_all add: set_op_Ok set_op_Throws set_op_Fails)

lemma remove_op_frame:
  "listeners (snd (remove_op config rp w)) = listeners w \<and>
   calls (snd (remove_op config rp w)) = calls w \<and>
   next_lid (snd (remove_op config rp w)) = next_lid w"
  by (cases rp) (simp_all add: remove_op_Ok remove_op_Throws remove_op_Fails)

lemma getWithDefault_frame:
  "listeners (snd (getWithDefault config rp w)) = listeners w \<and>
   calls (snd (getWithDefault config rp w)) = calls w \<and>
   next_lid (snd (getWithDefault config rp w)) = next_lid w"
proof (cases "get config rp w")
  case (Pair p w')
  with get_frame [of config rp w]
  have "listeners w' = listeners w" "calls w' = calls w" "next_lid w' = next_lid w"
    by simp_all
  with Pair show ?thesis
    by (simp add: getWithDefault_def console_error_def split: promise_state.splits)
qed

lemma reset_frame:
  "listeners (snd (reset config rp w)) = listeners w \<and>
   calls (snd (reset config rp w)) = calls w \<and>
   next_lid (snd (reset config rp w)) = next_lid w"
  by (simp add: reset_eq_set_op set_op_frame)

subsection \<open>Listeners and change events\<close>

lemma watch_Done:
  "watch config cb Done w =
     (Returned (Remove_listener (next_lid w) (key config)),
      w\<lparr>listeners := listeners w @
            [\<lparr>lid = next_lid w, lkey = key config, lcallback = cb\<rparr>],
         next_lid := Suc (next_lid w)\<rparr>)"
  by (simp add: watch_def onChanged_addListener_def try_catch_def)

lemma watch_Raises:
  "watch config cb (Raises m) w =
     (Returned No_op,
      console_error (''Storage watch error for '' @ key config @ '':'') (StoreUnavailable m)
        (w\<lparr>next_lid := Suc (next_lid w)\<rparr>))"
  by (simp add: watch_def onChanged_addListener_def try_catch_def)

lemma listeners_onChanged_fire: "listeners (onChanged_fire ch w) = listeners w"
  by (simp add: onChanged_fire_def)

lemma listeners_fire_all: "listeners (fire_all evs w) = listeners w"
  by (induction evs arbitrary: w) (simp_all add: listeners_onChanged_fire)

lemma calls_fire_all:
  "calls (fire_all evs w) = calls w @ concat (map (event_calls (listeners w)) evs)"
proof (induction evs arbitrary: w)
  case Nil
  show ?case by simp
next
  case (Cons ch evs)
  have "calls (onChanged_fire ch w) = calls w @ event_calls (listeners w) ch"
    by (simp add: onChanged_fire_def)
  with Cons [of "onChanged_fire ch w"] show ?case
    by (simp add: listeners_onChanged_fire)
qed

lemma wf_world_lid: "wf_world w \<Longrightarrow> l \<in> set (listeners w) \<Longrightarrow> lid l \<noteq> next_lid w"
  by (auto simp add: wf_world_def list_all_iff)

lemma event_calls_other:
  "(\<And>l. l \<in> set ls \<Longrightarrow> lid l \<noteq> i) \<Longrightarrow> filter (\<lambda>c. fst c = i) (event_calls ls ch) = []"
  by (induction ls) (simp_all add: event_calls_def listener_body_def)

lemma event_calls_append:
  "event_calls (ls @ ms) ch = event_calls ls ch @ event_calls ms ch"
  by (simp add: event_calls_def)

lemma event_calls_single:
  "filter (\<lambda>c. fst c = i) (event_calls [\<lparr>lid = i, lkey = k, lcallback = cb\<rparr>] ch) =
     (if has_property ch k
      then [(i, cb, case ch k of Some c \<Rightarrow> newValue c | None \<Rightarrow> None)] else [])"
  by (simp add: event_calls_def listener_body_def)

lemma events_subscribed:
  assumes "\<And>l. l \<in> set ls \<Longrightarrow> lid l \<noteq> i"
  shows "filter (\<lambda>c. fst c = i)
           (concat (map (event_calls (ls @ [\<lparr>lid = i, lkey = k, lcallback = cb\<rparr>])) evs)) =
         map (\<lambda>ch. (i, cb, case ch k of Some c \<Rightarrow> newValue c | None \<Rightarrow> None))
           (filter (\<lambda>ch. has_property ch k) evs)"
  by (induction evs)
     (simp_all add: event_calls_append event_calls_other [OF assms] event_calls_single)

text \<open>
  What the listener of a \<^verbatim>\<open>watch\<close> that succeeded does with any list of change events:
  one invocation for every event that has the key as a property, own or inherited.
\<close>

lemma watch_calls:
  assumes "wf_world w"
  shows "calls_since (length (calls w)) (next_lid w)
           (fire_all evs (snd (watch config cb Done w))) =
         map (\<lambda>ch. (next_lid w, cb,
                case ch (key config) of Some c \<Rightarrow> newValue c | None \<Rightarrow> None))
           (filter (\<lambda>ch. has_property ch (key config)) evs)"
proof -
  have old: "\<And>l. l \<in> set (listeners w) \<Longrightarrow> lid l \<noteq> next_lid w"
    using assms by (rule wf_world_lid)
  show ?thesis
    by (simp add: calls_since_def calls_fire_all watch_Done events_subscribed [OF old])
qed

text \<open>For a key that names no inherited member these are the events that report the key.\<close>

lemma watch_calls_own_key:
  assumes "wf_world w" and "key config \<notin> set Object_prototype"
  shows "calls_since (length (calls w)) (next_lid w)
           (fire_all evs (snd (watch config cb Done w))) =
         map (\<lambda>ch. (next_lid w, cb, newValue (the (ch (key config)))))
           (filter (\<lambda>ch. ch (key config) \<noteq> None) evs)"
proof -
  have p: "has_property ch (key config) = (ch (key config) \<noteq> None)"
    for ch :: "string \<rightharpoonup> 'a StorageChange"
    using assms(2) by (simp add: has_property_def split: option.splits)
  have "map (\<lambda>ch. (next_lid w, cb,
                case ch (key config) of Some c \<Rightarrow> newValue c | None \<Rightarrow> None))
           (filter (\<lambda>ch. ch (key config) \<noteq> None) evs) =
        map (\<lambda>ch. (next_lid w, cb, newValue (the (ch (key config)))))
           (filter (\<lambda>ch. ch (key config) \<noteq> None) evs)"
    for evs :: "(string \<rightharpoonup> 'a StorageChange) list"
    by (rule map_cong) auto
  then show ?thesis
    by (simp add: watch_calls [OF assms(1)] p)
qed

subsection \<open>The function returned by watch\<close>

lemma call_unregister_returns: "fst (call_unregister u rp w) = Returned ()"
  by (cases u; cases rp)
     (simp_all add: call_unregister_def onChanged_removeListener_def try_catch_def)

lemma call_unregister_Raises:
  "call_unregister (Remove_listener j k) (Raises m) w =
     (Returned (),
      console_error (''Storage unwatch error for '' @ k @ '':'') (StoreUnavailable m) w)"
  by (simp add: call_unregister_def onChanged_removeListener_def try_catch_def)

lemma call_unregister_frame:
  "calls (snd (call_unregister u rp w)) = calls w \<and>
   next_lid (snd (call_unregister u rp w)) = next_lid w"
  by (cases u; cases rp)
     (simp_all add: call_unregister_def onChanged_removeListener_def try_catch_def
        console_error_def)

lemma listeners_call_unregister:
  "l \<in> set (listeners (snd (call_unregister u rp w))) \<Longrightarrow> l \<in> set (listeners w)"
  by (cases u; cases rp)
     (simp_all add: call_unregister_def onChanged_removeListener_def try_catch_def
        console_error_def)

lemma listeners_removed:
  "l \<in> set (listeners (snd (call_unregister (Remove_listener i k) Done w))) \<Longrightarrow> lid l \<noteq> i"
  by (simp add: call_unregister_def onChanged_removeListener_def try_catch_def)

lemma call_unregister_again:
  assumes "\<And>l. l \<in> set (listeners w) \<Longrightarrow> lid l \<noteq> i"
    and "u = Remove_listener i k \<or> u = No_op"
  shows "listeners (snd (call_unregister u rp w)) = listeners w"
proof -
  have "filter (\<lambda>l. lid l \<noteq> i) (listeners w) = listeners w"
    using assms(1) by (simp add: filter_id_conv)
  with assms(2) show ?thesis
    by (cases rp)
       (auto simp add: call_unregister_def onChanged_removeListener_def try_catch_def
          console_error_def)
qed

subsection \<open>A listener that is gone stays gone\<close>

text \<open>
  Once the closure \<open>i\<close> has been created and is not registered, nothing a caller or
  the host does registers it again or makes it invoke its callback: a later
  \<^verbatim>\<open>watch\<close> registers a closure of its own.
\<close>

lemma perform_quiet:
  assumes "i < next_lid w" and "\<forall>l \<in> set (listeners w). lid l \<noteq> i"
  shows "i < next_lid (perform a w) \<and>
    (\<forall>l \<in> set (listeners (perform a w)). lid l \<noteq> i) \<and>
    (\<exists>xs. calls (perform a w) = calls w @ xs \<and> filter (\<lambda>c. fst c = i) xs = [])"
proof (cases a)
  case (Change ch)
  from assms(2) have "filter (\<lambda>c. fst c = i) (event_calls (listeners w) ch) = []"
    by (intro event_calls_other) simp
  with Change assms show ?thesis
    by (simp add: onChanged_fire_def)
next
  case (Call_get config rp)
  then show ?thesis using assms by (simp add: get_frame)
next
  case (Call_set config v rp)
  then show ?thesis using assms by (simp add: set_op_frame)
next
  case (Call_remove config rp)
  then show ?thesis using assms by (simp add: remove_op_frame)
next
  case (Call_getWithDefault config rp)
  then show ?thesis using assms by (simp add: getWithDefault_frame)
next
  case (Call_reset config rp)
  then show ?thesis using assms by (simp add: reset_frame)
next
  case (Call_watch config cb rp)
  then show ?thesis
    using assms by (cases rp) (auto simp add: watch_Done watch_Raises console_error_def)
next
  case (Call_unregister u rp)
  then show ?thesis
    using assms listeners_call_unregister [of _ u rp w]
    by (auto simp add: call_unregister_frame)
qed

lemma run_quiet:
  assumes "i < next_lid w" and "\<forall>l \<in> set (listeners w). lid l \<noteq> i"
  shows "i < next_lid (run as w) \<and>
    (\<forall>l \<in> set (listeners (run as w)). lid l \<noteq> i) \<and>
    (\<exists>xs. calls (run as w) = calls w @ xs \<and> filter (\<lambda>c. fst c = i) xs = [])"
  using assms
proof (induction as arbitrary: w)
  case Nil
  then show ?case by simp
next
  case (Cons a as)
  from perform_quiet [OF Cons.prems, of a] obtain xs
    where p: "i < next_lid (perform a w)" "\<forall>l \<in> set (listeners (perform a w)). lid l \<noteq> i"
    and xs: "calls (perform a w) = calls w @ xs" "filter (\<lambda>c. fst c = i) xs = []"
    by blast
  from Cons.IH [OF p] obtain ys
    where rest: "i < next_lid (run as (perform a w))"
      "\<forall>l \<in> set (listeners (run as (perform a w))). lid l \<noteq> i"
    and ys: "calls (run as (perform a w)) = calls (perform a w) @ ys"
      "filter (\<lambda>c. fst c = i) ys = []"
    by blast
  from xs ys have "calls (run (a # as) w) = calls w @ (xs @ ys)"
      "filter (\<lambda>c. fst c = i) (xs @ ys) = []"
    by simp_all
  with rest show ?case
    by (metis run.simps(2))
qed

lemma next_lid_perform: "next_lid w \<le> next_lid (perform a w)"
proof (cases a)
  case (Call_watch config cb rp)
  then show ?thesis
    by (cases rp) (simp_all add: watch_Done watch_Raises console_error_def)
qed (simp_all add: onChanged_fire_def get_frame set_op_frame remove_op_frame
      getWithDefault_frame reset_frame call_unregister_frame)

lemma next_lid_run: "next_lid w \<le> next_lid (run as w)"
proof (induction as arbitrary: w)
  case Nil
  show ?case by simp
next
  case (Cons a as)
  from next_lid_perform [of w a] Cons [of "perform a w"] show ?case
    by simp
qed

section \<open>The claims\<close>

text \<open>
  C1. If the store reports an error through \<^verbatim>\<open>lastError\<close> after \<^verbatim>\<open>set(v)\<close>, the
  promise of \<^verbatim>\<open>set\<close> is to reject with the store's error, nothing being committed. In
  the code the callback of line 30 logs and throws; it is the host that invoked it, so
  the exception never reaches the promise. With key \<^verbatim>\<open>theme\<close>, value \<^verbatim>\<open>dark\<close> and a
  write that fails, nothing is committed, but the promise gets no settle request and
  stays pending; the error ends as an uncaught exception.
\<close>

theorem set_lastError_leaves_promise_pending:
  "state_of (fst (set_op theme_config ''dark'' (Fails ''quota exceeded'') empty_world)) = Pending
   \<and> fst (set_op theme_config ''dark'' (Fails ''quota exceeded'') empty_world) = []
   \<and> uncaught (snd (set_op theme_config ''dark'' (Fails ''quota exceeded'') empty_world)) =
       [StoreUnavailable ''quota exceeded'']
   \<and> console (snd (set_op theme_config ''dark'' (Fails ''quota exceeded'') empty_world)) =
       [(''Storage set error for theme:'', StoreUnavailable ''quota exceeded'')]
   \<and> store (snd (set_op theme_config ''dark'' (Fails ''quota exceeded'') empty_world)) ''theme''
       = None"
  by (simp add: set_op_Fails theme_config_def empty_world_def)

text \<open>
  C2. When the store's call errors, \<^verbatim>\<open>get\<close> is to reject with the store's error,
  logged with the key. In the code the handler that logs (lines 19-22) is never reached.
  When the call throws, the promise rejects and the console stays empty. When the error
  comes through \<^verbatim>\<open>lastError\<close>, which the callback of line 15 does not read, the promise
  is fulfilled from whatever result the host passed, or stays pending when that result is
  undefined; the console stays empty as well.
\<close>

theorem get_error_is_not_logged:
  "get theme_config (Get_throws ''boom'') (empty_world :: string world) =
     ([Reject (StoreUnavailable ''boom'')], empty_world)
   \<and> console (snd (get theme_config (Get_throws ''boom'') (empty_world :: string world))) = []
   \<and> state_of (fst (get theme_config (Get_fails ''boom'' (Some Map.empty))
        (empty_world :: string world))) = Fulfilled Undefined
   \<and> console (snd (get theme_config (Get_fails ''boom'' (Some Map.empty))
        (empty_world :: string world))) = []
   \<and> state_of (fst (get theme_config (Get_fails ''boom'' None)
        (empty_world :: string world))) = Pending
   \<and> console (snd (get theme_config (Get_fails ''boom'' None)
        (empty_world :: string world))) = []"
  by (simp add: get_Get_throws get_Get_fails_result get_Get_fails_undefined empty_world_def
      property_read_absent theme_not_inherited theme_config_def)

text \<open>
  C3. Every call of \<^verbatim>\<open>get\<close>, \<^verbatim>\<open>set\<close> or \<^verbatim>\<open>remove\<close> is to settle its promise
  exactly once, also when the callback fires with \<^verbatim>\<open>lastError\<close> set. In the code a
  removal that fails through \<^verbatim>\<open>lastError\<close> makes no settle request at all (the callback
  of line 93 throws before \<^verbatim>\<open>resolve()\<close>), and so does a \<^verbatim>\<open>get\<close> whose callback
  receives an undefined result: both promises stay pending.
\<close>

theorem remove_lastError_never_settles:
  "length (fst (remove_op theme_config (Fails ''boom'') empty_world)) = 0
   \<and> state_of (fst (remove_op theme_config (Fails ''boom'') empty_world)) = Pending
   \<and> uncaught (snd (remove_op theme_config (Fails ''boom'') empty_world)) =
       [StoreUnavailable ''boom'']
   \<and> length (fst (get theme_config (Get_fails ''boom'' None) empty_world)) = 0
   \<and> uncaught (snd (get theme_config (Get_fails ''boom'' None) empty_world)) = [TypeError]"
  by (simp add: remove_op_Fails get_Get_fails_undefined empty_world_def)

text \<open>
  C4. Round trip: on a store that reports no error, \<^verbatim>\<open>set(v)\<close> is fulfilled and a
  \<^verbatim>\<open>get()\<close> that follows it is fulfilled with \<open>v\<close>, for every key, every value and
  every state of the host before.
\<close>

theorem set_get_roundtrip:
  "state_of (fst (set_op config v Ok w)) = Fulfilled ()
   \<and> state_of (fst (get config Get_ok (snd (set_op config v Ok w)))) = Fulfilled (Value v)"
  by (simp add: set_op_Ok get_Get_ok_stored)

text \<open>
  C5. \<^verbatim>\<open>getWithDefault()\<close> is to be fulfilled with \<^verbatim>\<open>config.defaultValue\<close> when the
  key has no stored value. Line 16 reads \<^verbatim>\<open>result[config.key]\<close>, which also finds what
  the result inherits: for the key \<^verbatim>\<open>toString\<close>, never set, \<^verbatim>\<open>get()\<close> is fulfilled
  with the function \<^verbatim>\<open>Object.prototype.toString\<close>, which is not \<^verbatim>\<open>undefined\<close>, and
  \<^verbatim>\<open>getWithDefault()\<close> passes it on instead of the default \<^verbatim>\<open>light\<close>. For the key
  \<^verbatim>\<open>theme\<close> the default is returned.
\<close>

theorem getWithDefault_returns_inherited_member:
  "store (empty_world :: string world) (key toString_config) = None
   \<and> state_of (fst (get toString_config Get_ok (empty_world :: string world))) =
       Fulfilled (Inherited ''toString'')
   \<and> getWithDefault toString_config Get_ok empty_world =
       ([Resolve (Inherited ''toString'')], empty_world)
   \<and> defaultValue toString_config = ''light''
   \<and> getWithDefault theme_config Get_ok empty_world =
       ([Resolve (Value ''light'')], empty_world)"
proof -
  have e: "store (empty_world :: string world) k = None" for k
    by (simp add: empty_world_def)
  have k: "key toString_config = ''toString''" "key theme_config = ''theme''"
    "defaultValue toString_config = ''light''" "defaultValue theme_config = ''light''"
    by (simp_all add: toString_config_def theme_config_def)
  show ?thesis
    by (simp add: getWithDefault_def get_Get_ok_unset e k toString_inherited
        theme_not_inherited)
qed

text \<open>
  C6. The listener of \<^verbatim>\<open>watch(cb)\<close> is to invoke \<open>cb\<close> once for every change event
  that reports the configured key and not at all for an event that reports other keys
  only. Line 50 tests \<^verbatim>\<open>config.key in changes\<close>, which is also true of what every
  event inherits: with the key \<^verbatim>\<open>toString\<close>, an event that reports the key
  \<^verbatim>\<open>lang\<close> only makes the listener invoke \<open>cb\<close>, with \<^verbatim>\<open>undefined\<close>. With the key
  \<^verbatim>\<open>theme\<close> the same event invokes nothing, and an event that reports \<^verbatim>\<open>theme\<close>
  invokes \<open>cb\<close> once with the new value.
\<close>

theorem watch_inherited_key_fires_on_other_keys:
  "lang_event ''toString'' = None
   \<and> fst (watch toString_config 7 Done empty_world) = Returned (Remove_listener 0 ''toString'')
   \<and> calls (fire_all [lang_event] (snd (watch toString_config 7 Done empty_world))) =
       [(0, 7, None)]
   \<and> calls (fire_all [lang_event] (snd (watch theme_config 7 Done empty_world))) = []
   \<and> calls (fire_all [dark_event] (snd (watch theme_config 7 Done empty_world))) =
       [(0, 7, Some ''dark'')]"
  by (simp add: watch_Done toString_config_def theme_config_def empty_world_def
      onChanged_fire_def event_calls_def listener_body_def has_property_def
      Object_prototype_def lang_event_def dark_event_def)

text \<open>
  C7 (amended). Neither \<^verbatim>\<open>watch\<close> nor the function it returns ever throws, whatever
  the host does, and that function may be called again. Once a call of it has found
  \<^verbatim>\<open>removeListener\<close> working, the subscription invokes \<open>cb\<close> no more, whatever
  happens before a further call of the function and after it (change events, calls of
  the operations of any accessor, further calls of \<^verbatim>\<open>watch\<close> and of the functions it
  returned); and such a further call leaves the registered listeners as they are. When
  \<^verbatim>\<open>removeListener\<close> throws, the function logs the error and returns, and nothing else
  changes: the listener stays registered. When \<^verbatim>\<open>addListener\<close> throws, \<^verbatim>\<open>watch\<close>
  logs the error and returns a function that does nothing.
\<close>

theorem unregister_idempotent_total:
  assumes "wf_world w"
    and "watch config cb ra w = (Returned u, w1)"
    and "call_unregister u Done (run as1 w1) = (c2, w2)"
    and "call_unregister u r3 (run as2 w2) = (c3, w3)"
  shows "c2 = Returned () \<and> c3 = Returned ()
    \<and> calls_since (length (calls w2)) (next_lid w) (run as2 w2) = []
    \<and> calls_since (length (calls w2)) (next_lid w) (run as3 w3) = []
    \<and> listeners w3 = listeners (run as2 w2)
    \<and> (\<exists>u'. fst (watch config cb ra' w') = Returned u')
    \<and> fst (call_unregister u'' rp w'') = Returned ()
    \<and> call_unregister (Remove_listener j k) (Raises m) w'' =
        (Returned (),
         console_error (''Storage unwatch error for '' @ k @ '':'') (StoreUnavailable m) w'')
    \<and> watch config cb (Raises m) w' =
        (Returned No_op,
         console_error (''Storage watch error for '' @ key config @ '':'')
           (StoreUnavailable m) (w'\<lparr>next_lid := Suc (next_lid w')\<rparr>))
    \<and> call_unregister No_op rp w'' = (Returned (), w'')"
proof -
  let ?i = "next_lid w"
  have w2: "w2 = snd (call_unregister u Done (run as1 w1))"
    and w3: "w3 = snd (call_unregister u r3 (run as2 w2))"
    and c2: "c2 = fst (call_unregister u Done (run as1 w1))"
    and c3: "c3 = fst (call_unregister u r3 (run as2 w2))"
    using assms(3,4) by simp_all
  have u: "u = Remove_listener ?i (key config) \<or> u = No_op"
    using assms(2) by (cases ra) (auto simp add: watch_Done watch_Raises)
  have n1: "?i < next_lid w1"
    using assms(2) by (cases ra) (auto simp add: watch_Done watch_Raises console_error_def)
  have n2: "?i < next_lid w2"
    unfolding w2 using n1 next_lid_run [of w1 as1] by (simp add: call_unregister_frame)
  have q2: "\<forall>l \<in> set (listeners w2). lid l \<noteq> ?i"
  proof (cases ra)
    case Done
    with assms(2) have "u = Remove_listener ?i (key config)"
      by (simp add: watch_Done)
    then show ?thesis
      unfolding w2 by (simp add: listeners_removed)
  next
    case (Raises m')
    with assms(2) have "listeners w1 = listeners w"
      by (auto simp add: watch_Raises console_error_def)
    with assms(1) have "\<forall>l \<in> set (listeners w1). lid l \<noteq> ?i"
      by (simp add: wf_world_lid)
    from run_quiet [OF n1 this, of as1]
    have "\<forall>l \<in> set (listeners (run as1 w1)). lid l \<noteq> ?i"
      by blast
    then show ?thesis
      unfolding w2 using listeners_call_unregister [of _ u Done "run as1 w1"] by blast
  qed
  from run_quiet [OF n2 q2, of as2] obtain xs
    where n2': "?i < next_lid (run as2 w2)"
      and q2': "\<forall>l \<in> set (listeners (run as2 w2)). lid l \<noteq> ?i"
      and xs: "calls (run as2 w2) = calls w2 @ xs" "filter (\<lambda>c. fst c = ?i) xs = []"
    by blast
  have same: "listeners w3 = listeners (run as2 w2)"
    unfolding w3 using call_unregister_again [of "run as2 w2" ?i u "key config" r3] q2' u
    by simp
  have n3: "?i < next_lid w3"
    unfolding w3 using n2' by (simp add: call_unregister_frame)
  have q3: "\<forall>l \<in> set (listeners w3). lid l \<noteq> ?i"
    using q2' same by simp
  have calls3: "calls w3 = calls w2 @ xs"
    unfolding w3 using xs(1) by (simp add: call_unregister_frame)
  from run_quiet [OF n3 q3, of as3] obtain ys
    where ys: "calls (run as3 w3) = calls w3 @ ys" "filter (\<lambda>c. fst c = ?i) ys = []"
    by blast
  have s2: "calls_since (length (calls w2)) ?i (run as2 w2) = []"
    by (simp add: calls_since_def xs)
  have s3: "calls_since (length (calls w2)) ?i (run as3 w3) = []"
    by (simp add: calls_since_def ys calls3 xs(2))
  have r: "\<exists>u'. fst (watch config cb ra' w') = Returned u'"
    by (cases ra') (simp_all add: watch_Done watch_Raises)
  have n: "call_unregister No_op rp w'' = (Returned (), w'')"
    by (simp add: call_unregister_def)
  from s2 s3 same r n show ?thesis
    by (simp add: c2 c3 call_unregister_returns call_unregister_Raises watch_Raises)
qed

theorem unregister_idempotent_total_witness:
  "wf_world (empty_world :: string world)
   \<and> watch theme_config 7 Done empty_world =
       (Returned (Remove_listener 0 ''theme''), snd (watch theme_config 7 Done empty_world))
   \<and> calls (run [Change dark_event] (snd (watch theme_config 7 Done empty_world))) =
       [(0, 7, Some ''dark'')]
   \<and> fst (call_unregister (Remove_listener 0 ''theme'') Done
        (run [Change dark_event] (snd (watch theme_config 7 Done empty_world)))) = Returned ()
   \<and> fst (call_unregister (Remove_listener 0 ''theme'') Done
        (run [Call_watch theme_config 8 Done, Change dark_event]
          (snd (call_unregister (Remove_listener 0 ''theme'') Done
            (run [Change dark_event] (snd (watch theme_config 7 Done empty_world))))))) =
       Returned ()
   \<and> calls_since 1 0
        (run [Change dark_event]
          (snd (call_unregister (Remove_listener 0 ''theme'') Done
            (run [Call_watch theme_config 8 Done, Change dark_event]
              (snd (call_unregister (Remove_listener 0 ''theme'') Done
                (run [Change dark_event]
                  (snd (watch theme_config 7 Done empty_world))))))))) = []
   \<and> listeners
        (snd (call_unregister (Remove_listener 0 ''theme'') Done
          (run [Call_watch theme_config 8 Done, Change dark_event]
            (snd (call_unregister (Remove_listener 0 ''theme'') Done
              (run [Change dark_event] (snd (watch theme_config 7 Done empty_world))))))))
       = [\<lparr>lid = 1, lkey = ''theme'', lcallback = 8\<rparr>]"
proof -
  let ?w1 = "snd (watch theme_config 7 Done (empty_world :: string world))"
  let ?u = "Remove_listener 0 ''theme''"
  let ?r2 = "call_unregister ?u Done (run [Change dark_event] ?w1)"
  let ?as2 = "[Call_watch theme_config 8 Done, Change dark_event]"
  let ?r3 = "call_unregister ?u Done (run ?as2 (snd ?r2))"
  note ev = watch_Done theme_config_def empty_world_def onChanged_fire_def event_calls_def
    listener_body_def has_property_def dark_event_def call_unregister_def
    onChanged_removeListener_def try_catch_def
  have h0: "wf_world (empty_world :: string world)"
    by (simp add: wf_world_def empty_world_def)
  have f: "next_lid (empty_world :: string world) = 0"
    by (simp add: empty_world_def)
  have h1: "watch theme_config 7 Done (empty_world :: string world) = (Returned ?u, ?w1)"
    by (simp add: watch_Done f theme_config_def)
  have h2: "?r2 = (fst ?r2, snd ?r2)" and h3: "?r3 = (fst ?r3, snd ?r3)"
    by simp_all
  have c1: "calls (run [Change dark_event] ?w1) = [(0, 7, Some ''dark'')]"
    by (simp add: ev)
  have l2: "length (calls (snd ?r2)) = 1"
    by (simp add: ev)
  have l3: "listeners (run ?as2 (snd ?r2)) = [\<lparr>lid = 1, lkey = ''theme'', lcallback = 8\<rparr>]"
    by (simp add: ev)
  note t = unregister_idempotent_total [OF h0 h1 h2 h3, where ?as3.0 = "[Change dark_event]"]
  note a = t [THEN conjunct1]
  note b = t [THEN conjunct2, THEN conjunct1]
  note c = t [THEN conjunct2, THEN conjunct2, THEN conjunct2, THEN conjunct1, unfolded l2 f]
  note d = t [THEN conjunct2, THEN conjunct2, THEN conjunct2, THEN conjunct2, THEN conjunct1]
  show ?thesis
    by (intro conjI) (rule h0, rule h1, rule c1, rule a, rule b, rule c, rule trans [OF d l3])
qed

text \<open>
  C7 as stated fails where the first call of the returned function finds
  \<^verbatim>\<open>removeListener\<close> throwing: lines 62-64 catch and log the error, the call returns,
  the listener stays registered, and the next change of the key invokes \<open>cb\<close> again.
\<close>

theorem unregister_failed_removal_counterexample:
  "fst (watch theme_config 7 Done empty_world) = Returned (Remove_listener 0 ''theme'')
   \<and> fst (call_unregister (Remove_listener 0 ''theme'') (Raises ''gone'')
        (snd (watch theme_config 7 Done empty_world))) = Returned ()
   \<and> calls (snd (call_unregister (Remove_listener 0 ''theme'') (Raises ''gone'')
        (snd (watch theme_config 7 Done empty_world)))) = []
   \<and> calls (fire_all [dark_event]
        (snd (call_unregister (Remove_listener 0 ''theme'') (Raises ''gone'')
          (snd (watch theme_config 7 Done empty_world))))) = [(0, 7, Some ''dark'')]"
  by (simp add: watch_Done theme_config_def empty_world_def
      call_unregister_def onChanged_removeListener_def try_catch_def console_error_def
      onChanged_fire_def event_calls_def listener_body_def has_property_def dark_event_def)

text \<open>
  C8. \<^verbatim>\<open>reset()\<close> is \<^verbatim>\<open>set(config.defaultValue)\<close>: for every reply of the host the
  two give the same promise and leave the same state, failures included; and on a store
  that reports no error a \<^verbatim>\<open>get()\<close> after \<^verbatim>\<open>reset()\<close> is fulfilled with
  \<^verbatim>\<open>config.defaultValue\<close>.
\<close>

theorem reset_is_set_default:
  "reset config rp w = set_op config (defaultValue config) rp w
   \<and> state_of (fst (reset config Ok w)) = Fulfilled ()
   \<and> state_of (fst (get config Get_ok (snd (reset config Ok w)))) =
       Fulfilled (Value (defaultValue config))"
proof -
  have "reset config rp w = set_op config (defaultValue config) rp w"
    by (cases rp)
       (simp_all add: reset_def set_op_Ok set_op_Throws set_op_Fails async_def adopt_def)
  then show ?thesis
    by (simp add: reset_def set_op_Ok get_Get_ok_stored async_def adopt_def)
qed

text \<open>
  C9. After \<^verbatim>\<open>remove()\<close> on a store that reports no error, \<^verbatim>\<open>get()\<close> is to be
  fulfilled with \<^verbatim>\<open>undefined\<close>. The removal does delete the key, but line 16 reads
  \<^verbatim>\<open>result[config.key]\<close>, which also finds what the result inherits: for the key
  \<^verbatim>\<open>toString\<close>, set and then removed, \<^verbatim>\<open>get()\<close> is fulfilled with the function
  \<^verbatim>\<open>Object.prototype.toString\<close>. For the key \<^verbatim>\<open>theme\<close> it is fulfilled with
  \<^verbatim>\<open>undefined\<close>.
\<close>

theorem remove_then_get_finds_inherited_member:
  "state_of (fst (remove_op toString_config Ok
       (snd (set_op toString_config ''dark'' Ok empty_world)))) = Fulfilled ()
   \<and> store (snd (remove_op toString_config Ok
       (snd (set_op toString_config ''dark'' Ok empty_world)))) ''toString'' = None
   \<and> state_of (fst (get toString_config Get_ok (snd (remove_op toString_config Ok
       (snd (set_op toString_config ''dark'' Ok empty_world)))))) =
       Fulfilled (Inherited ''toString'')
   \<and> state_of (fst (get theme_config Get_ok (snd (remove_op theme_config Ok
       (snd (set_op theme_config ''dark'' Ok empty_world)))))) = Fulfilled Undefined"
proof -
  have k: "key toString_config = ''toString''" "key theme_config = ''theme''"
    by (simp_all add: toString_config_def theme_config_def)
  show ?thesis
    by (simp add: remove_op_Ok set_op_Ok get_Get_ok_unset k toString_inherited
        theme_not_inherited)
qed

text \<open>
  C10. A change event that reports the configured key with no \<^verbatim>\<open>newValue\<close> (the key
  was removed) still makes the listener of an active \<^verbatim>\<open>watch(cb)\<close> invoke \<open>cb\<close>, with
  \<^verbatim>\<open>undefined\<close>: that invocation comes after those of the listeners registered before.
\<close>

theorem watch_passes_undefined_on_removal:
  "calls (onChanged_fire (changes(key config \<mapsto> \<lparr>newValue = None, oldValue = old\<rparr>))
       (snd (watch config cb Done w))) =
   calls (onChanged_fire (changes(key config \<mapsto> \<lparr>newValue = None, oldValue = old\<rparr>)) w) @
     [(next_lid w, cb, None)]"
  by (simp add: watch_Done onChanged_fire_def event_calls_def listener_body_def
      has_property_def)

end
